theory Spec2Isabelle
  imports Main "HOL-Library.Word"
begin

section \<open>The engine bridge of \<open>windows/chessapp/EngineModule.cpp\<close>\<close>

text \<open>
  \<open>EngineModule\<close> launches a chess engine as a child process, writes commands to the
  child's standard input, drains its standard output on a background thread into a queue,
  and tears everything down again. The module's fields are a record; every Win32 call the
  code makes is appended to a ghost field \<open>os_calls\<close>, in program order, with the
  arguments it was given; what the operating system answers is an argument of the model
  (one record of answers per operation). A \<open>ReactPromise\<close> is settled exactly once on
  every path, so each public method returns how its promise was settled.
\<close>

subsection \<open>Values\<close>

type_synonym HANDLE = nat
type_synonym DWORD = "32 word"
type_synonym wchar_t = "16 word"
type_synonym wstring = "wchar_t list"

abbreviation nullptr :: HANDLE where
  "nullptr \<equiv> 0"

abbreviation NUL :: char where
  "NUL \<equiv> CHR 0x00"

abbreviation LF :: char where
  "LF \<equiv> CHR 0x0A"

definition INVALID_FILE_ATTRIBUTES :: DWORD where
  "INVALID_FILE_ATTRIBUTES = 0xFFFFFFFF"

definition STILL_ACTIVE :: DWORD where
  "STILL_ACTIVE = 259"

text \<open>A wide string literal \<open>L"..."\<close> of ASCII characters.\<close>

definition L :: "string \<Rightarrow> wstring" where
  "L cs = map of_char cs"

text \<open>
  \<open>c_str()\<close> handed to an API that takes a NUL-terminated string, and the construction
  of a string from a \<open>const wchar_t*\<close>: the characters before the first NUL.
\<close>

definition c_str :: "wstring \<Rightarrow> wstring" where
  "c_str ws = takeWhile (\<lambda>w. w \<noteq> 0) ws"

text \<open>\<open>operator<<\<close> of an unsigned integer on a stream: its decimal digits.\<close>

function decimal :: "nat \<Rightarrow> string" where
  "decimal n = (if n < 10 then [char_of (48 + n)] else decimal (n div 10) @ [char_of (48 + n mod 10)])"
  by pat_completeness auto
termination
  by (relation "measure id") auto

declare decimal.simps [simp del]

text \<open>How a promise was settled. \<open>Terminate\<close> is \<open>std::terminate\<close>: the host process is gone.\<close>

datatype 'a promise = Resolve 'a | Reject string | Terminate

text \<open>
  \<open>std::thread m_outputThread\<close>: no thread (default constructed or joined), a drainer that
  is in its loop, or a drainer whose function has returned and that was not joined yet.
  The last two are \<open>joinable()\<close>.
\<close>

datatype thread = not_a_thread | thread_looping | thread_returned

definition joinable :: "thread \<Rightarrow> bool" where
  "joinable t = (t \<noteq> not_a_thread)"

text \<open>The calls that leave the module, with their arguments.\<close>

datatype api_call =
    OutputDebugStringW wstring
  | GetFileAttributesW wstring
  | GetTempPathW
  | CreateDirectoryW wstring
  | CopyFileW wstring wstring
  | CreatePipe "(HANDLE \<times> HANDLE) option"
  | SetHandleInformation HANDLE
  | CreateProcessW wstring HANDLE HANDLE HANDLE
  | CloseHandle HANDLE
  | TerminateProcess HANDLE
  | WaitForSingleObject HANDLE nat
  | WriteFile HANDLE string DWORD
  | FlushFileBuffers HANDLE
  | PeekNamedPipe HANDLE
  | ReadFile HANDLE nat
  | GetExitCodeProcess HANDLE
  | sleep_for nat
  | JSDispatcher_Post string
  | thread_start
  | thread_join

subsection \<open>The module's state\<close>

text \<open>
  The fields of \<open>struct EngineModule\<close> (EngineModule.h). \<open>OnEngineOutput\<close> is whether
  the \<open>std::function\<close> holds a listener. \<open>os_calls\<close> is the ghost log.
\<close>

record EngineModule =
  OnEngineOutput :: bool
  m_processHandle :: HANDLE
  m_stdinWrite :: HANDLE
  m_stdoutRead :: HANDLE
  m_stderrRead :: HANDLE
  m_outputThread :: thread
  m_isRunning :: bool
  m_outputQueue :: "string list"
  os_calls :: "api_call list"

text \<open>The member initialisers of the header: the state of a fresh module.\<close>

definition initial :: "bool \<Rightarrow> EngineModule" where
  "initial listener =
     \<lparr>OnEngineOutput = listener, m_processHandle = nullptr, m_stdinWrite = nullptr,
      m_stdoutRead = nullptr, m_stderrRead = nullptr, m_outputThread = not_a_thread,
      m_isRunning = False, m_outputQueue = [], os_calls = []\<rparr>"

definition call :: "api_call \<Rightarrow> EngineModule \<Rightarrow> EngineModule" where
  "call c s = s\<lparr>os_calls := os_calls s @ [c]\<rparr>"

text \<open>The calls an operation added to the log.\<close>

definition new_calls :: "EngineModule \<Rightarrow> EngineModule \<Rightarrow> api_call list" where
  "new_calls s s' = drop (length (os_calls s)) (os_calls s')"

subsection \<open>\<open>CleanupProcess\<close>\<close>

text \<open>\<open>while (!m_outputQueue.empty()) m_outputQueue.pop();\<close>\<close>

fun pop_all :: "string list \<Rightarrow> string list" where
  "pop_all [] = []"
| "pop_all (x # q) = pop_all q"

text \<open>
  \<open>join()\<close> returns when the drainer's function has returned. The flag is already false
  when it is called, so a drainer that is in its loop leaves it at its next test.
\<close>

definition CleanupProcess :: "EngineModule \<Rightarrow> EngineModule" where
  "CleanupProcess s0 =
     (let s1 = s0\<lparr>m_isRunning := False\<rparr>;
          s2 = (if joinable (m_outputThread s1)
                then (call thread_join s1)\<lparr>m_outputThread := not_a_thread\<rparr>
                else s1);
          s3 = (if m_processHandle s2 \<noteq> nullptr
                then (call (CloseHandle (m_processHandle s2))
                       (call (WaitForSingleObject (m_processHandle s2) 1000)
                         (call (TerminateProcess (m_processHandle s2)) s2)))
                     \<lparr>m_processHandle := nullptr\<rparr>
                else s2);
          s4 = (if m_stdinWrite s3 \<noteq> nullptr
                then (call (CloseHandle (m_stdinWrite s3)) s3)\<lparr>m_stdinWrite := nullptr\<rparr>
                else s3);
          s5 = (if m_stdoutRead s4 \<noteq> nullptr
                then (call (CloseHandle (m_stdoutRead s4)) s4)\<lparr>m_stdoutRead := nullptr\<rparr>
                else s4);
          s6 = (if m_stderrRead s5 \<noteq> nullptr
                then (call (CloseHandle (m_stderrRead s5)) s5)\<lparr>m_stderrRead := nullptr\<rparr>
                else s5)
      in s6\<lparr>m_outputQueue := pop_all (m_outputQueue s6)\<rparr>)"

subsection \<open>\<open>StopEngine\<close>, \<open>IsEngineRunning\<close>\<close>

definition StopEngine :: "EngineModule \<Rightarrow> bool promise \<times> EngineModule" where
  "StopEngine s = (Resolve True, CleanupProcess s)"

definition IsEngineRunning :: "EngineModule \<Rightarrow> bool promise \<times> EngineModule" where
  "IsEngineRunning s = (Resolve (m_isRunning s), s)"

subsection \<open>\<open>SendCommand\<close>\<close>

text \<open>
  What \<open>WriteFile\<close> answers: \<open>None\<close> when it returns \<open>FALSE\<close>, otherwise the byte count it
  stored in \<open>bytesWritten\<close>.
\<close>

record send_os =
  WriteFile_result :: "DWORD option"

text \<open>
  The logged call \<open>WriteFile h buf n\<close> carries the buffer and the byte count
  \<open>(DWORD)command.length()\<close>; the bytes offered to the pipe are the first \<open>n\<close> of the buffer.
\<close>

definition SendCommand :: "send_os \<Rightarrow> string \<Rightarrow> EngineModule \<Rightarrow> bool promise \<times> EngineModule" where
  "SendCommand os command0 s =
     (if \<not> m_isRunning s \<or> m_stdinWrite s = nullptr
      then (Reject ''Engine is not running'', s)
      else
        let command = (if command0 \<noteq> [] \<and> last command0 \<noteq> LF then command0 @ [LF] else command0);
            s1 = call (WriteFile (m_stdinWrite s) command (word_of_nat (length command))) s
        in case WriteFile_result os of
             None \<Rightarrow> (Reject ''Failed to write to engine stdin'', s1)
           | Some bytesWritten \<Rightarrow> (Resolve True, call (FlushFileBuffers (m_stdinWrite s)) s1))"

text \<open>The bytes a logged call offers to a handle, and the bytes an operation offered to it.\<close>

fun offered :: "HANDLE \<Rightarrow> api_call \<Rightarrow> string" where
  "offered h (WriteFile h' buf n) = (if h' = h then take (unat n) buf else [])"
| "offered h _ = []"

definition bytes_offered :: "HANDLE \<Rightarrow> api_call list \<Rightarrow> string" where
  "bytes_offered h cs = concat (map (offered h) cs)"

subsection \<open>\<open>ReadOutput\<close>\<close>

text \<open>
  \<open>while (!m_outputQueue.empty()) { ss << m_outputQueue.front(); m_outputQueue.pop(); }\<close>
  on the stream's contents and the queue.
\<close>

fun drain :: "string \<Rightarrow> string list \<Rightarrow> string \<times> string list" where
  "drain ss [] = (ss, [])"
| "drain ss (front # q) = drain (ss @ front) q"

definition ReadOutput :: "EngineModule \<Rightarrow> string promise \<times> EngineModule" where
  "ReadOutput s =
     (if m_outputQueue s = [] then (Resolve [], s)
      else let (ss, q) = drain [] (m_outputQueue s)
           in (Resolve ss, s\<lparr>m_outputQueue := q\<rparr>))"

subsection \<open>\<open>SpawnEngine\<close> and its helpers\<close>

text \<open>
  What the platform answers during one \<open>SpawnEngine\<close>: the package's install location,
  the attributes of a path, the length \<open>GetTempPathW\<close> returns and the text it leaves in the
  buffer, whether a copy succeeds, the two ends \<open>(read, write)\<close> of each pipe (\<open>None\<close>
  when \<open>CreatePipe\<close> fails; it then leaves its out-parameters as they were), the handles
  \<open>(hProcess, hThread)\<close> of the created process, and the value \<open>GetLastError()\<close> returns
  at each of the four places that read it: after the attributes (line 58), after the copy
  (line 370), after \<open>CreateProcessW\<close> (line 271) and after \<open>CreateEngineProcess\<close> (line 83).
  A launch whose \<open>CreateProcessW\<close> fails reads it at the last two, with \<open>CleanupProcess\<close>
  in between; every other path reads it at most once.
\<close>

record spawn_os =
  InstalledLocation_Path :: wstring
  GetFileAttributesW_result :: "wstring \<Rightarrow> DWORD"
  GetTempPathW_result :: "DWORD \<times> wstring"
  CopyFileW_result :: "wstring \<Rightarrow> wstring \<Rightarrow> bool"
  CreatePipe_stdin :: "(HANDLE \<times> HANDLE) option"
  CreatePipe_stdout :: "(HANDLE \<times> HANDLE) option"
  CreatePipe_stderr :: "(HANDLE \<times> HANDLE) option"
  CreateProcessW_result :: "wstring \<Rightarrow> (HANDLE \<times> HANDLE) option"
  GetLastError_attributes :: DWORD
  GetLastError_copy :: DWORD
  GetLastError_process :: DWORD
  GetLastError_spawn :: DWORD

abbreviation backslash :: wchar_t where
  "backslash \<equiv> 0x5C"

abbreviation slash :: wchar_t where
  "slash \<equiv> 0x2F"

text \<open>
  \<open>find_last_of\<close>: the greatest index holding one of the given characters; \<open>None\<close> is
  \<open>npos\<close>.
\<close>

fun find_last_of :: "wstring \<Rightarrow> wstring \<Rightarrow> nat option" where
  "find_last_of [] chars = None"
| "find_last_of (w # ws) chars =
     (case find_last_of ws chars of
        Some i \<Rightarrow> Some (Suc i)
      | None \<Rightarrow> (if w \<in> set chars then Some 0 else None))"

text \<open>
  The three lines that \<open>SpawnEngine\<close> and \<open>CopyEngineToAppData\<close> both have:
  \<open>lastSlash = path.find_last_of(...)\<close> for the two characters backslash and slash, and
  \<open>filename = lastSlash != npos ? path.substr(lastSlash + 1) : path\<close>.
\<close>

definition filename :: "wstring \<Rightarrow> wstring" where
  "filename path =
     (case find_last_of path [backslash, slash] of
        Some lastSlash \<Rightarrow> drop (lastSlash + 1) path
      | None \<Rightarrow> path)"

definition CopyEngineToAppData :: "spawn_os \<Rightarrow> wstring \<Rightarrow> EngineModule \<Rightarrow> wstring \<times> EngineModule" where
  "CopyEngineToAppData os sourcePath s0 =
     (let s1 = call GetTempPathW s0;
          (tempPathLen, tempPath) = GetTempPathW_result os
      in if tempPathLen = 0
         then ([], call (OutputDebugStringW (L ''Failed to get temp path'')) s1)
         else
           let engineDir = c_str tempPath @ L ''ChessAppEngine'' @ [backslash];
               s2 = call (CreateDirectoryW (c_str engineDir)) s1;
               destPath = engineDir @ filename sourcePath;
               s3 = call (CopyFileW (c_str sourcePath) (c_str destPath)) s2
           in if \<not> CopyFileW_result os (c_str sourcePath) (c_str destPath)
              then ([], call (OutputDebugStringW (c_str (L ''Failed to copy engine file. Error code: ''
                                @ L (decimal (unat (GetLastError_copy os)))))) s3)
              else (destPath, call (OutputDebugStringW (c_str (L ''Copied engine to: '' @ destPath))) s3))"

definition CreateEngineProcess :: "spawn_os \<Rightarrow> wstring \<Rightarrow> EngineModule \<Rightarrow> bool \<times> EngineModule" where
  "CreateEngineProcess os enginePath s0 =
     (let s1 = call (CreatePipe (CreatePipe_stdin os)) s0 in
      case CreatePipe_stdin os of
        None \<Rightarrow> (False, s1)
      | Some (stdinRead, stdinWrite) \<Rightarrow>
         (let s2 = call (SetHandleInformation stdinWrite) (s1\<lparr>m_stdinWrite := stdinWrite\<rparr>);
              s3 = call (CreatePipe (CreatePipe_stdout os)) s2 in
          case CreatePipe_stdout os of
            None \<Rightarrow> (False, call (CloseHandle (m_stdinWrite s3)) (call (CloseHandle stdinRead) s3))
          | Some (stdoutRead, stdoutWrite) \<Rightarrow>
             (let s4 = call (SetHandleInformation stdoutRead) (s3\<lparr>m_stdoutRead := stdoutRead\<rparr>);
                  s5 = call (CreatePipe (CreatePipe_stderr os)) s4 in
              case CreatePipe_stderr os of
                None \<Rightarrow>
                  (False, call (CloseHandle stdoutWrite)
                            (call (CloseHandle (m_stdoutRead s5))
                              (call (CloseHandle (m_stdinWrite s5))
                                (call (CloseHandle stdinRead) s5))))
              | Some (stderrRead, stderrWrite) \<Rightarrow>
                 (let s6 = call (SetHandleInformation stderrRead) (s5\<lparr>m_stderrRead := stderrRead\<rparr>);
                      s7 = call (CreateProcessW (c_str enginePath) stdinRead stdoutWrite stderrWrite) s6;
                      s8 = call (CloseHandle stderrWrite)
                             (call (CloseHandle stdoutWrite)
                               (call (CloseHandle stdinRead) s7)) in
                  case CreateProcessW_result os (c_str enginePath) of
                    None \<Rightarrow>
                      (False, CleanupProcess
                         (call (OutputDebugStringW (c_str (L ''CreateProcessW failed for path: '' @ enginePath
                                  @ L '' Error code: '' @ L (decimal (unat (GetLastError_process os)))))) s8))
                  | Some (hProcess, hThread) \<Rightarrow>
                      (True, call (CloseHandle hThread) (s8\<lparr>m_processHandle := hProcess\<rparr>))))))"

text \<open>
  Assigning a new \<open>std::thread\<close> to \<open>m_outputThread\<close> while it is joinable calls
  \<open>std::terminate\<close>; the new thread was started by then.
\<close>

definition SpawnEngine :: "spawn_os \<Rightarrow> wstring \<Rightarrow> EngineModule \<Rightarrow> bool promise \<times> EngineModule" where
  "SpawnEngine os enginePath s0 =
     (let packagePath = c_str (InstalledLocation_Path os);
          packageEnginePath = packagePath @ [backslash] @ L ''Assets'' @ [backslash] @ L ''engines''
                                @ [backslash] @ filename enginePath;
          s1 = call (OutputDebugStringW (c_str (L ''Looking for engine at: '' @ packageEnginePath))) s0;
          s2 = call (GetFileAttributesW (c_str packageEnginePath)) s1
      in if GetFileAttributesW_result os (c_str packageEnginePath) = INVALID_FILE_ATTRIBUTES
         then (Reject (''Engine not found in package. Error code: ''
                        @ decimal (unat (GetLastError_attributes os))), s2)
         else
           let (tempEnginePath, s3) = CopyEngineToAppData os packageEnginePath s2 in
           if tempEnginePath = [] then (Reject ''Failed to copy engine to temp folder'', s3)
           else
             let s4 = (if m_isRunning s3 then CleanupProcess s3 else s3);
                 (created, s5) = CreateEngineProcess os tempEnginePath s4
             in if \<not> created
                then (Reject (''Failed to spawn engine process. Error code: ''
                               @ decimal (unat (GetLastError_spawn os))), s5)
                else
                  let s6 = call thread_start (s5\<lparr>m_isRunning := True\<rparr>) in
                  if joinable (m_outputThread s6) then (Terminate, s6)
                  else (Resolve True, s6\<lparr>m_outputThread := thread_looping\<rparr>))"

subsection \<open>\<open>OutputReaderThread\<close>\<close>

text \<open>
  What the platform answers during one iteration of the drainer's loop: whether
  \<open>PeekNamedPipe\<close> succeeded and the count it stored in \<open>available\<close>, whether \<open>ReadFile\<close>
  succeeded and the bytes it delivered, whether \<open>GetExitCodeProcess\<close> succeeded and the
  exit code; \<open>stack_buffer\<close> is what \<open>char buffer[4096]\<close> holds before the read.
\<close>

record drain_os =
  PeekNamedPipe_result :: "bool \<times> DWORD"
  ReadFile_result :: "bool \<times> string"
  GetExitCodeProcess_result :: "bool \<times> DWORD"
  stack_buffer :: "nat \<Rightarrow> char"

text \<open>\<open>ReadFile\<close> stores the bytes it read at the start of the buffer.\<close>

definition ReadFile_into :: "(nat \<Rightarrow> char) \<Rightarrow> string \<Rightarrow> nat \<Rightarrow> char" where
  "ReadFile_into buffer data = (\<lambda>i. if i < length data then data ! i else buffer i)"

text \<open>
  \<open>std::string output(buffer)\<close>: the characters of the 4096-byte array before its first
  NUL.
\<close>

definition std_string :: "(nat \<Rightarrow> char) \<Rightarrow> string" where
  "std_string buffer = takeWhile (\<lambda>c. c \<noteq> NUL) (map buffer [0..<4096])"

text \<open>
  One pass through \<open>while (m_isRunning) { ... }\<close>, from the test of the flag to the end of
  the body. \<open>ReadFile\<close> is asked for \<open>sizeof(buffer) - 1\<close> bytes and delivers no more.
\<close>

definition OutputReaderThread_iteration :: "drain_os \<Rightarrow> EngineModule \<Rightarrow> EngineModule" where
  "OutputReaderThread_iteration os s0 =
     (if \<not> m_isRunning s0 then s0\<lparr>m_outputThread := thread_returned\<rparr>
      else
        let s1 = call (PeekNamedPipe (m_stdoutRead s0)) s0;
            (peeked, available) = PeekNamedPipe_result os;
            s3 = (if peeked \<and> available > 0
                  then
                    let s2 = call (ReadFile (m_stdoutRead s1) 4095) s1;
                        (was_read, delivered) = ReadFile_result os;
                        data = take 4095 delivered
                    in if was_read \<and> data \<noteq> []
                       then
                         let buffer = (ReadFile_into (stack_buffer os) data)(length data := NUL);
                             output = std_string buffer;
                             s2' = s2\<lparr>m_outputQueue := m_outputQueue s2 @ [output]\<rparr>
                         in if OnEngineOutput s2' then call (JSDispatcher_Post output) s2' else s2'
                       else s2
                  else s1);
            s4 = call (sleep_for 10) s3;
            s5 = call (GetExitCodeProcess (m_processHandle s4)) s4;
            (got, exitCode) = GetExitCodeProcess_result os
        in if got \<and> exitCode \<noteq> STILL_ACTIVE
           then s5\<lparr>m_isRunning := False, m_outputThread := thread_returned\<rparr>
           else s5)"

subsection \<open>Everything that can happen to a module\<close>

text \<open>
  The five public methods, each atomic under the mutex it takes, and one iteration of the
  drainer, which runs only while the thread is in its loop. Iterations are interleaved
  with the methods as wholes: an iteration that is under way when a method starts is
  taken to have finished before it. \<open>Initialize\<close> only stores the React context, which
  the model does not carry. Exceptions (a failed allocation, a thread that cannot be
  started) are outside the model.
\<close>

datatype operation =
    Call_SpawnEngine spawn_os wstring
  | Call_SendCommand send_os string
  | Call_ReadOutput
  | Call_StopEngine
  | Call_IsEngineRunning
  | Drainer_iteration drain_os

fun exec :: "operation \<Rightarrow> EngineModule \<Rightarrow> EngineModule" where
  "exec (Call_SpawnEngine os enginePath) s = snd (SpawnEngine os enginePath s)"
| "exec (Call_SendCommand os command) s = snd (SendCommand os command s)"
| "exec Call_ReadOutput s = snd (ReadOutput s)"
| "exec Call_StopEngine s = snd (StopEngine s)"
| "exec Call_IsEngineRunning s = snd (IsEngineRunning s)"
| "exec (Drainer_iteration os) s =
     (if m_outputThread s = thread_looping then OutputReaderThread_iteration os s else s)"

subsection \<open>Notions the statements use\<close>

text \<open>
  What a full stop logs, read off \<open>CleanupProcess\<close>: the join when the thread is joinable,
  the termination, wait and close of the process when its handle is not null, the close of
  each pipe handle that is not null.
\<close>

definition stop_calls :: "EngineModule \<Rightarrow> api_call list" where
  "stop_calls s =
     (if joinable (m_outputThread s) then [thread_join] else [])
     @ (if m_processHandle s \<noteq> nullptr
        then [TerminateProcess (m_processHandle s), WaitForSingleObject (m_processHandle s) 1000,
              CloseHandle (m_processHandle s)]
        else [])
     @ (if m_stdinWrite s \<noteq> nullptr then [CloseHandle (m_stdinWrite s)] else [])
     @ (if m_stdoutRead s \<noteq> nullptr then [CloseHandle (m_stdoutRead s)] else [])
     @ (if m_stderrRead s \<noteq> nullptr then [CloseHandle (m_stderrRead s)] else [])"

text \<open>The calls that create a process.\<close>

fun creates :: "api_call \<Rightarrow> bool" where
  "creates (CreateProcessW p i out e) = True"
| "creates _ = False"

text \<open>
  What a session holds while it runs: a thread to join and four handles that are not null.
  Handles the platform returns are not null; sequences of operations are run from the
  left.
\<close>

definition session_held :: "EngineModule \<Rightarrow> bool" where
  "session_held s =
     (joinable (m_outputThread s) \<and> m_processHandle s \<noteq> nullptr \<and> m_stdinWrite s \<noteq> nullptr
      \<and> m_stdoutRead s \<noteq> nullptr \<and> m_stderrRead s \<noteq> nullptr)"

definition valid_handles :: "spawn_os \<Rightarrow> bool" where
  "valid_handles os =
     ((case CreatePipe_stdin os of None \<Rightarrow> True | Some (r, w) \<Rightarrow> w \<noteq> nullptr)
      \<and> (case CreatePipe_stdout os of None \<Rightarrow> True | Some (r, w) \<Rightarrow> r \<noteq> nullptr)
      \<and> (case CreatePipe_stderr os of None \<Rightarrow> True | Some (r, w) \<Rightarrow> r \<noteq> nullptr)
      \<and> (\<forall>path. case CreateProcessW_result os path of None \<Rightarrow> True | Some (p, t) \<Rightarrow> p \<noteq> nullptr))"

fun valid_operation :: "operation \<Rightarrow> bool" where
  "valid_operation (Call_SpawnEngine os enginePath) = valid_handles os"
| "valid_operation _ = True"

fun run :: "operation list \<Rightarrow> EngineModule \<Rightarrow> EngineModule" where
  "run [] s = s"
| "run (op # ops) s = run ops (exec op s)"

text \<open>The chunks that a list of calls hands to the listener.\<close>

fun posted :: "api_call \<Rightarrow> string list" where
  "posted (JSDispatcher_Post output) = [output]"
| "posted _ = []"

subsection \<open>Concrete sessions and platform answers\<close>

text \<open>
  A running session with a listener, a platform on which every step of a launch succeeds,
  one on which the second pipe cannot be created, a read that delivers five bytes with a
  NUL in the middle while the engine is alive, an iteration that finds the engine gone,
  and the state of a fresh module after one launch on the platform that refuses the
  second pipe.
\<close>

definition example_running :: EngineModule where
  "example_running =
     \<lparr>OnEngineOutput = True, m_processHandle = 7, m_stdinWrite = 2, m_stdoutRead = 3,
      m_stderrRead = 5, m_outputThread = thread_looping, m_isRunning = True,
      m_outputQueue = [''ok''], os_calls = []\<rparr>"

definition example_os :: spawn_os where
  "example_os =
     \<lparr>InstalledLocation_Path = L ''C:'', GetFileAttributesW_result = (\<lambda>path. 32),
      GetTempPathW_result = (3, L ''T:'' @ [backslash]), CopyFileW_result = (\<lambda>src dst. True),
      CreatePipe_stdin = Some (11, 12), CreatePipe_stdout = Some (13, 14),
      CreatePipe_stderr = Some (15, 16), CreateProcessW_result = (\<lambda>path. Some (17, 18)),
      GetLastError_attributes = 0, GetLastError_copy = 0, GetLastError_process = 0,
      GetLastError_spawn = 0\<rparr>"

definition example_stdout_pipe_fails :: spawn_os where
  "example_stdout_pipe_fails = example_os\<lparr>CreatePipe_stdout := None, GetLastError_spawn := 8\<rparr>"

definition example_read :: drain_os where
  "example_read =
     \<lparr>PeekNamedPipe_result = (True, 5), ReadFile_result = (True, [CHR ''a'', CHR ''b'', NUL, CHR ''c'', CHR ''d'']),
      GetExitCodeProcess_result = (True, 259), stack_buffer = (\<lambda>i. CHR ''x'')\<rparr>"

definition example_exit :: drain_os where
  "example_exit =
     \<lparr>PeekNamedPipe_result = (True, 0), ReadFile_result = (False, []),
      GetExitCodeProcess_result = (True, 0), stack_buffer = (\<lambda>i. CHR ''x'')\<rparr>"

definition example_failed_launch :: EngineModule where
  "example_failed_launch =
     run [Call_SpawnEngine example_stdout_pipe_fails (L ''sf.exe'')] (initial False)"

definition example_source :: wstring where
  "example_source = L ''C:'' @ [backslash] @ L ''Assets'' @ [backslash] @ L ''engines'' @ [backslash] @ L ''sf.exe''"

definition example_copy :: wstring where
  "example_copy = L ''T:'' @ [backslash] @ L ''ChessAppEngine'' @ [backslash] @ L ''sf.exe''"

section \<open>Properties\<close>

subsection \<open>The log and the fields\<close>

lemma drain_eq: "drain ss q = (ss @ concat q, [])"
  by (induction q arbitrary: ss) simp_all

lemma pop_all_eq: "pop_all q = []"
  by (induction q) simp_all

lemma call_simps [simp]:
  "os_calls (call c s) = os_calls s @ [c]"
  "m_isRunning (call c s) = m_isRunning s"
  "m_processHandle (call c s) = m_processHandle s"
  "m_stdinWrite (call c s) = m_stdinWrite s"
  "m_stdoutRead (call c s) = m_stdoutRead s"
  "m_stderrRead (call c s) = m_stderrRead s"
  "m_outputThread (call c s) = m_outputThread s"
  "m_outputQueue (call c s) = m_outputQueue s"
  "OnEngineOutput (call c s) = OnEngineOutput s"
  by (simp_all add: call_def)

lemma call_update [simp]:
  "call c (s\<lparr>m_isRunning := b\<rparr>) = (call c s)\<lparr>m_isRunning := b\<rparr>"
  "call c (s\<lparr>m_processHandle := h\<rparr>) = (call c s)\<lparr>m_processHandle := h\<rparr>"
  "call c (s\<lparr>m_stdinWrite := h\<rparr>) = (call c s)\<lparr>m_stdinWrite := h\<rparr>"
  "call c (s\<lparr>m_stdoutRead := h\<rparr>) = (call c s)\<lparr>m_stdoutRead := h\<rparr>"
  "call c (s\<lparr>m_stderrRead := h\<rparr>) = (call c s)\<lparr>m_stderrRead := h\<rparr>"
  "call c (s\<lparr>m_outputThread := t\<rparr>) = (call c s)\<lparr>m_outputThread := t\<rparr>"
  "call c (s\<lparr>m_outputQueue := q\<rparr>) = (call c s)\<lparr>m_outputQueue := q\<rparr>"
  by (simp_all add: call_def)

lemma new_calls_append [simp]: "os_calls s' = os_calls s @ cs \<Longrightarrow> new_calls s s' = cs"
  by (simp add: new_calls_def)

lemma CleanupProcess_fields [simp]:
  "m_isRunning (CleanupProcess s) = False"
  "m_outputThread (CleanupProcess s) = not_a_thread"
  "m_processHandle (CleanupProcess s) = nullptr"
  "m_stdinWrite (CleanupProcess s) = nullptr"
  "m_stdoutRead (CleanupProcess s) = nullptr"
  "m_stderrRead (CleanupProcess s) = nullptr"
  "m_outputQueue (CleanupProcess s) = []"
  "OnEngineOutput (CleanupProcess s) = OnEngineOutput s"
  by (simp_all add: CleanupProcess_def Let_def pop_all_eq joinable_def)

lemma CleanupProcess_calls: "os_calls (CleanupProcess s) = os_calls s @ stop_calls s"
  by (simp add: CleanupProcess_def Let_def stop_calls_def)

lemma new_calls_CleanupProcess: "new_calls s (CleanupProcess s) = stop_calls s"
  by (rule new_calls_append) (rule CleanupProcess_calls)

lemma CleanupProcess_null:
  "\<not> m_isRunning s \<Longrightarrow> m_outputThread s = not_a_thread \<Longrightarrow> m_processHandle s = nullptr \<Longrightarrow>
   m_stdinWrite s = nullptr \<Longrightarrow> m_stdoutRead s = nullptr \<Longrightarrow> m_stderrRead s = nullptr \<Longrightarrow>
   m_outputQueue s = [] \<Longrightarrow> CleanupProcess s = s"
  by (simp add: CleanupProcess_def Let_def joinable_def)

lemma CleanupProcess_idem: "CleanupProcess (CleanupProcess s) = CleanupProcess s"
  by (rule CleanupProcess_null) simp_all

lemma stop_calls_no_create: "c \<in> set (stop_calls s) \<Longrightarrow> \<not> creates c"
  by (auto simp: stop_calls_def split: if_splits)

lemma stop_calls_cong:
  "m_outputThread s' = m_outputThread s \<Longrightarrow> m_processHandle s' = m_processHandle s \<Longrightarrow>
   m_stdinWrite s' = m_stdinWrite s \<Longrightarrow> m_stdoutRead s' = m_stdoutRead s \<Longrightarrow>
   m_stderrRead s' = m_stderrRead s \<Longrightarrow> stop_calls s' = stop_calls s"
  by (simp add: stop_calls_def)

lemma in_stop_calls:
  "joinable (m_outputThread s) \<Longrightarrow> thread_join \<in> set (stop_calls s)"
  "m_processHandle s \<noteq> nullptr \<Longrightarrow> TerminateProcess (m_processHandle s) \<in> set (stop_calls s)"
  "m_processHandle s \<noteq> nullptr \<Longrightarrow> CloseHandle (m_processHandle s) \<in> set (stop_calls s)"
  "m_stdinWrite s \<noteq> nullptr \<Longrightarrow> CloseHandle (m_stdinWrite s) \<in> set (stop_calls s)"
  "m_stdoutRead s \<noteq> nullptr \<Longrightarrow> CloseHandle (m_stdoutRead s) \<in> set (stop_calls s)"
  "m_stderrRead s \<noteq> nullptr \<Longrightarrow> CloseHandle (m_stderrRead s) \<in> set (stop_calls s)"
  by (simp_all add: stop_calls_def)

lemma CopyEngineToAppData_fields [simp]:
  "m_isRunning (snd (CopyEngineToAppData os src s)) = m_isRunning s"
  "m_outputThread (snd (CopyEngineToAppData os src s)) = m_outputThread s"
  "m_processHandle (snd (CopyEngineToAppData os src s)) = m_processHandle s"
  "m_stdinWrite (snd (CopyEngineToAppData os src s)) = m_stdinWrite s"
  "m_stdoutRead (snd (CopyEngineToAppData os src s)) = m_stdoutRead s"
  "m_stderrRead (snd (CopyEngineToAppData os src s)) = m_stderrRead s"
  by (simp_all add: CopyEngineToAppData_def Let_def split: prod.splits)

lemma CopyEngineToAppData_calls:
  "\<exists>cs. os_calls (snd (CopyEngineToAppData os src s)) = os_calls s @ cs \<and> (\<forall>c\<in>set cs. \<not> creates c)"
  by (simp add: CopyEngineToAppData_def Let_def split: prod.splits)

lemma CreateEngineProcess_calls:
  "\<exists>cs. os_calls (snd (CreateEngineProcess os p s)) = os_calls s @ cs"
  by (simp add: CreateEngineProcess_def Let_def CleanupProcess_calls split: option.splits prod.splits)

subsection \<open>The shape of a launch\<close>

text \<open>
  A launch of a running session either leaves the flag set and creates no process (the
  engine was not found, or could not be copied), or its log holds the whole stop sequence
  of the old session with no process creation before it.
\<close>

lemma SpawnEngine_calls:
  assumes "m_isRunning s"
  shows "(m_isRunning (snd (SpawnEngine os p s))
          \<and> (\<forall>c\<in>set (new_calls s (snd (SpawnEngine os p s))). \<not> creates c))
       \<or> (\<exists>pre post. new_calls s (snd (SpawnEngine os p s)) = pre @ stop_calls s @ post
            \<and> (\<forall>c\<in>set pre. \<not> creates c))"
proof -
  define pkg where "pkg = c_str (InstalledLocation_Path os) @ [backslash] @ L ''Assets'' @ [backslash]
     @ L ''engines'' @ [backslash] @ filename p"
  define s2 where "s2 = call (GetFileAttributesW (c_str pkg))
     (call (OutputDebugStringW (c_str (L ''Looking for engine at: '' @ pkg))) s)"
  define s3 where "s3 = snd (CopyEngineToAppData os pkg s2)"
  define tmp where "tmp = fst (CopyEngineToAppData os pkg s2)"
  obtain cs where cs: "os_calls s3 = os_calls s2 @ cs" "\<forall>c\<in>set cs. \<not> creates c"
    using CopyEngineToAppData_calls s3_def by blast
  have s2: "os_calls s2 = os_calls s @ [OutputDebugStringW (c_str (L ''Looking for engine at: '' @ pkg)),
      GetFileAttributesW (c_str pkg)]"
    by (simp add: s2_def)
  have run3: "m_isRunning s3" using assms by (simp add: s3_def s2_def)
  have stop3: "stop_calls s3 = stop_calls s"
    by (rule stop_calls_cong) (simp_all add: s3_def s2_def)
  show ?thesis
  proof (cases "GetFileAttributesW_result os (c_str pkg) = INVALID_FILE_ATTRIBUTES")
    case True
    then have "snd (SpawnEngine os p s) = s2"
      by (simp add: SpawnEngine_def Let_def pkg_def s2_def)
    then show ?thesis using s2 assms by (simp add: s2_def)
  next
    case found: False
    show ?thesis
    proof (cases "tmp = []")
      case True
      then have "snd (SpawnEngine os p s) = s3"
        using found by (simp add: SpawnEngine_def Let_def pkg_def s2_def s3_def tmp_def case_prod_beta)
      then show ?thesis using s2 cs run3 by simp
    next
      case False
      obtain ds where ds: "os_calls (snd (CreateEngineProcess os tmp (CleanupProcess s3)))
          = os_calls (CleanupProcess s3) @ ds"
        using CreateEngineProcess_calls by blast
      have "\<exists>es. os_calls (snd (SpawnEngine os p s)) = os_calls (snd (CreateEngineProcess os tmp (CleanupProcess s3))) @ es"
        using found False run3
        by (simp add: SpawnEngine_def Let_def pkg_def s2_def s3_def tmp_def case_prod_beta)
      then obtain es where "os_calls (snd (SpawnEngine os p s))
          = os_calls s @ ([OutputDebugStringW (c_str (L ''Looking for engine at: '' @ pkg)),
              GetFileAttributesW (c_str pkg)] @ cs) @ stop_calls s @ (ds @ es)"
        using ds cs s2 stop3 by (auto simp: CleanupProcess_calls)
      then have "new_calls s (snd (SpawnEngine os p s))
          = ([OutputDebugStringW (c_str (L ''Looking for engine at: '' @ pkg)),
              GetFileAttributesW (c_str pkg)] @ cs) @ stop_calls s @ (ds @ es)"
        by (rule new_calls_append)
      moreover have "\<forall>c\<in>set ([OutputDebugStringW (c_str (L ''Looking for engine at: '' @ pkg)),
              GetFileAttributesW (c_str pkg)] @ cs). \<not> creates c"
        using cs by simp
      ultimately show ?thesis by blast
    qed
  qed
qed

text \<open>Every launch starts by looking the file name up under the package's engine directory.\<close>

lemma SpawnEngine_lookup_first:
  "\<exists>rest. new_calls s (snd (SpawnEngine os p s))
     = OutputDebugStringW (c_str (L ''Looking for engine at: '' @ c_str (InstalledLocation_Path os)
          @ [backslash] @ L ''Assets'' @ [backslash] @ L ''engines'' @ [backslash] @ filename p))
       # GetFileAttributesW (c_str (c_str (InstalledLocation_Path os)
          @ [backslash] @ L ''Assets'' @ [backslash] @ L ''engines'' @ [backslash] @ filename p))
       # rest"
proof -
  define pkg where "pkg = c_str (InstalledLocation_Path os) @ [backslash] @ L ''Assets'' @ [backslash]
     @ L ''engines'' @ [backslash] @ filename p"
  define s2 where "s2 = call (GetFileAttributesW (c_str pkg))
     (call (OutputDebugStringW (c_str (L ''Looking for engine at: '' @ pkg))) s)"
  define s3 where "s3 = snd (CopyEngineToAppData os pkg s2)"
  define tmp where "tmp = fst (CopyEngineToAppData os pkg s2)"
  define s4 where "s4 = (if m_isRunning s3 then CleanupProcess s3 else s3)"
  have s2: "os_calls s2 = os_calls s @ [OutputDebugStringW (c_str (L ''Looking for engine at: '' @ pkg)),
      GetFileAttributesW (c_str pkg)]"
    by (simp add: s2_def)
  obtain cs where cs: "os_calls s3 = os_calls s2 @ cs"
    using CopyEngineToAppData_calls s3_def by blast
  have "\<exists>ds. os_calls s4 = os_calls s3 @ ds"
    by (simp add: s4_def CleanupProcess_calls)
  then obtain ds where ds: "os_calls s4 = os_calls s3 @ ds" ..
  obtain es where es: "os_calls (snd (CreateEngineProcess os tmp s4)) = os_calls s4 @ es"
    using CreateEngineProcess_calls by blast
  have "\<exists>fs. os_calls (snd (SpawnEngine os p s)) = os_calls s2 @ fs"
  proof (cases "GetFileAttributesW_result os (c_str pkg) = INVALID_FILE_ATTRIBUTES")
    case True
    then show ?thesis
      by (simp add: SpawnEngine_def Let_def pkg_def s2_def)
  next
    case found: False
    show ?thesis
    proof (cases "tmp = []")
      case True
      then have "snd (SpawnEngine os p s) = s3"
        using found by (simp add: SpawnEngine_def Let_def pkg_def s2_def s3_def tmp_def case_prod_beta)
      then show ?thesis using cs by simp
    next
      case False
      have "\<exists>gs. os_calls (snd (SpawnEngine os p s)) = os_calls (snd (CreateEngineProcess os tmp s4)) @ gs"
        using found False
        by (simp add: SpawnEngine_def Let_def pkg_def s2_def s3_def tmp_def s4_def case_prod_beta)
      then show ?thesis using es ds cs by auto
    qed
  qed
  then obtain fs where "os_calls (snd (SpawnEngine os p s))
      = os_calls s @ OutputDebugStringW (c_str (L ''Looking for engine at: '' @ pkg))
          # GetFileAttributesW (c_str pkg) # fs"
    using s2 by auto
  then have "new_calls s (snd (SpawnEngine os p s))
      = OutputDebugStringW (c_str (L ''Looking for engine at: '' @ pkg)) # GetFileAttributesW (c_str pkg) # fs"
    by (rule new_calls_append)
  then show ?thesis unfolding pkg_def by blast
qed

lemma split_after_prefix:
  assumes "xs @ ys = before @ c # after" and "c \<notin> set xs"
  shows "\<exists>r. before = xs @ r"
  using assms
  by (auto simp: append_eq_append_conv2 append_eq_Cons_conv)

subsection \<open>What a running session holds\<close>

text \<open>
  Whenever the flag is set in a state reached from a fresh module, the thread is joinable
  and the process handle and the three pipe handles are not null.
\<close>

lemma CreateEngineProcess_held:
  assumes "valid_handles os" and "fst (CreateEngineProcess os p s)"
  shows "m_processHandle (snd (CreateEngineProcess os p s)) \<noteq> nullptr
       \<and> m_stdinWrite (snd (CreateEngineProcess os p s)) \<noteq> nullptr
       \<and> m_stdoutRead (snd (CreateEngineProcess os p s)) \<noteq> nullptr
       \<and> m_stderrRead (snd (CreateEngineProcess os p s)) \<noteq> nullptr
       \<and> m_outputThread (snd (CreateEngineProcess os p s)) = m_outputThread s"
proof -
  obtain a b where 1: "CreatePipe_stdin os = Some (a, b)"
    using assms(2) by (cases "CreatePipe_stdin os") (auto simp: CreateEngineProcess_def Let_def)
  obtain c d where 2: "CreatePipe_stdout os = Some (c, d)"
    using assms(2) 1 by (cases "CreatePipe_stdout os") (auto simp: CreateEngineProcess_def Let_def)
  obtain e f where 3: "CreatePipe_stderr os = Some (e, f)"
    using assms(2) 1 2 by (cases "CreatePipe_stderr os") (auto simp: CreateEngineProcess_def Let_def)
  obtain g h where 4: "CreateProcessW_result os (c_str p) = Some (g, h)"
    using assms(2) 1 2 3 by (cases "CreateProcessW_result os (c_str p)") (auto simp: CreateEngineProcess_def Let_def)
  have "b \<noteq> nullptr" "c \<noteq> nullptr" "e \<noteq> nullptr"
    using assms(1) 1 2 3 by (simp_all add: valid_handles_def)
  moreover have "g \<noteq> nullptr"
    using assms(1) 4 by (auto simp: valid_handles_def split: option.splits dest!: spec [of _ "c_str p"])
  ultimately show ?thesis
    using 1 2 3 4 by (simp add: CreateEngineProcess_def Let_def)
qed

lemma CreateEngineProcess_flag:
  "\<not> m_isRunning s \<Longrightarrow> \<not> m_isRunning (snd (CreateEngineProcess os p s))"
  by (simp add: CreateEngineProcess_def Let_def split: option.splits prod.splits)

lemma session_held_call [simp]: "session_held (call c s) = session_held s"
  by (simp add: session_held_def)

lemma session_held_Copy [simp]: "session_held (snd (CopyEngineToAppData os src s)) = session_held s"
  by (simp add: session_held_def)

lemma SpawnEngine_held:
  assumes "valid_handles os" and "m_isRunning s \<longrightarrow> session_held s"
  shows "m_isRunning (snd (SpawnEngine os p s)) \<longrightarrow> session_held (snd (SpawnEngine os p s))"
proof -
  have a: "\<And>tmp s'. \<not> m_isRunning s' \<Longrightarrow> \<not> m_isRunning (snd (CreateEngineProcess os tmp s'))"
    by (rule CreateEngineProcess_flag)
  note b = CreateEngineProcess_held [OF assms(1)]
  show ?thesis
    using assms(2) a b
    by (auto simp add: SpawnEngine_def Let_def case_prod_beta joinable_def session_held_def)
qed

lemma exec_held:
  assumes "m_isRunning s \<longrightarrow> session_held s"
    and "valid_operation op"
  shows "m_isRunning (exec op s) \<longrightarrow> session_held (exec op s)"
proof (cases op)
  case (Call_SpawnEngine os p)
  then show ?thesis using SpawnEngine_held [OF _ assms(1), of os p] assms(2) by simp
next
  case (Call_SendCommand os c)
  then show ?thesis using assms(1)
    by (auto simp add: SendCommand_def Let_def session_held_def split: option.splits)
next
  case Call_ReadOutput
  then show ?thesis using assms(1) by (simp add: ReadOutput_def drain_eq session_held_def)
next
  case Call_StopEngine
  then show ?thesis by (simp add: StopEngine_def)
next
  case Call_IsEngineRunning
  then show ?thesis using assms(1) by (simp add: IsEngineRunning_def)
next
  case (Drainer_iteration os)
  then show ?thesis using assms(1)
    by (simp add: OutputReaderThread_iteration_def Let_def case_prod_beta session_held_def joinable_def)
qed


lemma run_held:
  assumes "m_isRunning s \<longrightarrow> session_held s" and "\<forall>op\<in>set ops. valid_operation op"
  shows "m_isRunning (run ops s) \<longrightarrow> session_held (run ops s)"
  using assms
proof (induction ops arbitrary: s)
  case Nil
  then show ?case by simp
next
  case (Cons op ops)
  have "m_isRunning (exec op s) \<longrightarrow> session_held (exec op s)"
    using Cons.prems by (intro exec_held) simp_all
  then show ?case using Cons by simp
qed

lemma running_session_held:
  assumes "\<forall>op\<in>set ops. valid_operation op" and "m_isRunning (run ops (initial listener))"
  shows "session_held (run ops (initial listener))"
  using run_held [OF _ assms(1), of "initial listener"] assms(2) by (simp add: initial_def)

subsection \<open>The final component of a path\<close>

text \<open>
  \<open>filename\<close> is the text after the last backslash or slash, and the whole path when it
  has neither.
\<close>

lemma find_last_of_none: "set ws \<inter> set chars = {} \<Longrightarrow> find_last_of ws chars = None"
  by (induction ws) auto

lemma find_last_of_append:
  "find_last_of ws chars = Some i \<Longrightarrow> find_last_of (vs @ ws) chars = Some (length vs + i)"
  by (induction vs) auto

lemma filename_final_component:
  assumes "sep = backslash \<or> sep = slash" and "backslash \<notin> set name" and "slash \<notin> set name"
  shows "filename (dir @ sep # name) = name"
proof -
  have "find_last_of name [backslash, slash] = None"
    using assms(2,3) by (intro find_last_of_none) auto
  then have "find_last_of (sep # name) [backslash, slash] = Some 0"
    using assms(1) by auto
  then have "find_last_of (dir @ sep # name) [backslash, slash] = Some (length dir + 0)"
    by (rule find_last_of_append)
  then show ?thesis by (simp add: filename_def)
qed

lemma filename_no_separator:
  assumes "backslash \<notin> set name" and "slash \<notin> set name"
  shows "filename name = name"
proof -
  have "find_last_of name [backslash, slash] = None"
    using assms by (intro find_last_of_none) auto
  then show ?thesis by (simp add: filename_def)
qed

subsection \<open>The flag, the write and the read buffer\<close>

lemma iteration_flag:
  "m_isRunning s \<Longrightarrow>
   m_isRunning (OutputReaderThread_iteration os s)
     = (\<not> (fst (GetExitCodeProcess_result os) \<and> snd (GetExitCodeProcess_result os) \<noteq> STILL_ACTIVE))"
  by (simp add: OutputReaderThread_iteration_def Let_def case_prod_beta)

lemma iteration_thread:
  "m_isRunning s \<Longrightarrow>
   m_outputThread (OutputReaderThread_iteration os s)
     = (if fst (GetExitCodeProcess_result os) \<and> snd (GetExitCodeProcess_result os) \<noteq> STILL_ACTIVE
        then thread_returned else m_outputThread s)"
  by (simp add: OutputReaderThread_iteration_def Let_def case_prod_beta)

lemma SendCommand_flag: "m_isRunning (snd (SendCommand os c s)) = m_isRunning s"
  by (simp add: SendCommand_def Let_def split: option.splits)

lemma ReadOutput_flag: "m_isRunning (snd (ReadOutput s)) = m_isRunning s"
  by (simp add: ReadOutput_def drain_eq)

lemma SendCommand_running:
  assumes "m_isRunning s" "m_stdinWrite s \<noteq> nullptr"
  shows "SendCommand os c s =
     (let command = (if c = [] \<or> last c = LF then c else c @ [LF]);
          s1 = call (WriteFile (m_stdinWrite s) command (word_of_nat (length command))) s
      in case WriteFile_result os of
           None \<Rightarrow> (Reject ''Failed to write to engine stdin'', s1)
         | Some n \<Rightarrow> (Resolve True, call (FlushFileBuffers (m_stdinWrite s)) s1))"
  using assms by (simp add: SendCommand_def Let_def)

lemma unat_length: "n < 4294967296 \<Longrightarrow> unat (word_of_nat n :: DWORD) = n"
  by (simp add: unat_of_nat)

lemma buffer_after_read:
  assumes "length data \<le> 4095"
  shows "map ((ReadFile_into buf data)(length data := NUL)) [0..<4096]
           = data @ NUL # map buf [Suc (length data)..<4096]"
proof -
  let ?n = "length data"
  let ?f = "(ReadFile_into buf data)(?n := NUL)"
  have "[0..<?n + (4096 - ?n)] = [0..<?n] @ [?n..<?n + (4096 - ?n)]"
    by (rule upt_add_eq_append) simp
  moreover have "?n + (4096 - ?n) = 4096"
    using assms by simp
  moreover have "[?n..<4096] = ?n # [Suc ?n..<4096]"
    using assms by (simp add: upt_conv_Cons)
  ultimately have "[0..<4096] = [0..<?n] @ ?n # [Suc ?n..<4096]"
    by simp
  then have "map ?f [0..<4096] = map ?f [0..<?n] @ ?f ?n # map ?f [Suc ?n..<4096]"
    by (metis list.simps(9) map_append)
  moreover have "map ?f [0..<?n] = data"
    by (rule nth_equalityI) (simp_all add: ReadFile_into_def)
  moreover have "map ?f [Suc ?n..<4096] = map buf [Suc ?n..<4096]"
    by (rule map_cong) (simp_all add: ReadFile_into_def)
  ultimately show ?thesis by simp
qed

lemma takeWhile_before_stop:
  "\<not> P x \<Longrightarrow> takeWhile P (xs @ x # ys) = takeWhile P xs"
proof (induction xs)
  case Nil
  then show ?case by simp
next
  case (Cons a xs)
  then show ?case by simp
qed

lemma std_string_after_read:
  assumes "length data \<le> 4095"
  shows "std_string ((ReadFile_into buf data)(length data := NUL)) = takeWhile (\<lambda>c. c \<noteq> NUL) data"
  unfolding std_string_def buffer_after_read [OF assms]
  by (rule takeWhile_before_stop) simp

subsection \<open>The concrete launches\<close>

lemmas example_defs = example_running_def example_os_def example_stdout_pipe_fails_def
lemmas spawn_defs = SpawnEngine_def CopyEngineToAppData_def CreateEngineProcess_def CleanupProcess_def
  call_def INVALID_FILE_ATTRIBUTES_def L_def c_str_def filename_def Let_def joinable_def new_calls_def

lemma decimal_8: "decimal 8 = ''8''"
  by code_simp

lemma example_restart_calls:
  "new_calls example_running (snd (SpawnEngine example_os (L ''x/sf.exe'') example_running))
     = [OutputDebugStringW (L ''Looking for engine at: '' @ example_source),
        GetFileAttributesW example_source, GetTempPathW,
        CreateDirectoryW (L ''T:'' @ [backslash] @ L ''ChessAppEngine'' @ [backslash]),
        CopyFileW example_source example_copy,
        OutputDebugStringW (L ''Copied engine to: '' @ example_copy),
        thread_join, TerminateProcess 7, WaitForSingleObject 7 1000,
        CloseHandle 7, CloseHandle 2, CloseHandle 3, CloseHandle 5,
        CreatePipe (Some (11, 12)), SetHandleInformation 12,
        CreatePipe (Some (13, 14)), SetHandleInformation 13,
        CreatePipe (Some (15, 16)), SetHandleInformation 15]
       @ CreateProcessW example_copy 11 14 16
       # [CloseHandle 11, CloseHandle 14, CloseHandle 16, CloseHandle 18, thread_start]"
  by (simp add: example_defs spawn_defs example_source_def example_copy_def)

lemma example_pipe_failure:
  "SpawnEngine example_stdout_pipe_fails (L ''sf.exe'') (initial False)
    = (Reject ''Failed to spawn engine process. Error code: 8'',
       (initial False)\<lparr>m_stdinWrite := 12,
         os_calls := [OutputDebugStringW (L ''Looking for engine at: '' @ example_source),
           GetFileAttributesW example_source, GetTempPathW,
           CreateDirectoryW (L ''T:'' @ [backslash] @ L ''ChessAppEngine'' @ [backslash]),
           CopyFileW example_source example_copy,
           OutputDebugStringW (L ''Copied engine to: '' @ example_copy),
           CreatePipe (Some (11, 12)), SetHandleInformation 12, CreatePipe None,
           CloseHandle 11, CloseHandle 12]\<rparr>)"
  by (simp add: example_defs spawn_defs initial_def decimal_8 example_source_def example_copy_def)

subsection \<open>What a stop leaves behind\<close>

text \<open>
  \<open>StopEngine\<close> always resolves with \<open>true\<close>; on a fresh module, and on any state that
  holds nothing, it changes nothing; a second \<open>StopEngine\<close> right after a first changes
  nothing and makes no call; after it the flag is false, there is no thread left to join,
  and the four handles are null, the calls it made being the join of a joinable thread
  and the release of every handle that was not null.
\<close>

lemma StopEngine_releases:
  "StopEngine (initial listener) = (Resolve True, initial listener)
   \<and> fst (StopEngine s) = Resolve True
   \<and> StopEngine (snd (StopEngine s)) = (Resolve True, snd (StopEngine s))
   \<and> \<not> m_isRunning (snd (StopEngine s))
   \<and> m_outputThread (snd (StopEngine s)) = not_a_thread
   \<and> m_processHandle (snd (StopEngine s)) = nullptr
   \<and> m_stdinWrite (snd (StopEngine s)) = nullptr
   \<and> m_stdoutRead (snd (StopEngine s)) = nullptr
   \<and> m_stderrRead (snd (StopEngine s)) = nullptr
   \<and> new_calls s (snd (StopEngine s)) = stop_calls s"
  by (simp add: StopEngine_def CleanupProcess_idem CleanupProcess_null initial_def
        new_calls_CleanupProcess)

lemma StopEngine_nothing_held:
  assumes "\<not> m_isRunning s" and "m_outputThread s = not_a_thread" and "m_processHandle s = nullptr"
    and "m_stdinWrite s = nullptr" and "m_stdoutRead s = nullptr" and "m_stderrRead s = nullptr"
    and "m_outputQueue s = []"
  shows "StopEngine s = (Resolve True, s)"
  using assms by (simp add: StopEngine_def CleanupProcess_null)

section \<open>The claims\<close>

subsection \<open>C1: the line terminator of a command\<close>

text \<open>
  C1, as amended. On a running session (the flag set, the stdin handle not null) and for a
  command shorter than \<open>2^32 - 1\<close> bytes, the bytes \<open>SendCommand\<close> offers to the stdin
  pipe are the command itself when it is empty or already ends in a line feed, and the
  command followed by one line feed otherwise. So the bytes of a non-empty command end in
  a line feed, and they are the command or the command with one line feed added.
\<close>

theorem SendCommand_terminates_line:
  assumes "m_isRunning s" and "m_stdinWrite s \<noteq> nullptr" and "length c < 4294967295"
  shows "bytes_offered (m_stdinWrite s) (new_calls s (snd (SendCommand os c s)))
           = (if c = [] \<or> last c = LF then c else c @ [LF])
       \<and> bytes_offered (m_stdinWrite s) (new_calls s (snd (SendCommand os c s))) \<in> {c, c @ [LF]}
       \<and> (c \<noteq> [] \<longrightarrow> last (bytes_offered (m_stdinWrite s) (new_calls s (snd (SendCommand os c s)))) = LF)"
  using assms
  by (cases "WriteFile_result os")
     (simp_all add: SendCommand_running Let_def bytes_offered_def unat_length)

text \<open>
  The command \<open>go\<close> on the running session: \<open>go\<close> and one line feed are offered.
\<close>

theorem SendCommand_terminates_line_witness:
  "m_isRunning example_running \<and> m_stdinWrite example_running \<noteq> nullptr
   \<and> bytes_offered (m_stdinWrite example_running)
        (new_calls example_running (snd (SendCommand \<lparr>WriteFile_result = Some 3\<rparr> ''go'' example_running))) = ''go'' @ [LF]"
proof -
  have h: "m_isRunning example_running" "m_stdinWrite example_running \<noteq> nullptr" "length ''go'' < 4294967295"
    by (simp_all add: example_running_def)
  show ?thesis
    using SendCommand_terminates_line [OF h, of "\<lparr>WriteFile_result = Some 3\<rparr>"] h by simp
qed

text \<open>
  C1 as stated, which asks for one line feed also after the empty command, fails there:
  the guard \<open>!command.empty()\<close> keeps the line feed away, no byte is offered to the pipe,
  and the promise is resolved.
\<close>

theorem SendCommand_empty_counterexample:
  "bytes_offered (m_stdinWrite example_running)
      (new_calls example_running (snd (SendCommand \<lparr>WriteFile_result = Some 0\<rparr> [] example_running))) = []
   \<and> bytes_offered (m_stdinWrite example_running)
      (new_calls example_running (snd (SendCommand \<lparr>WriteFile_result = Some 0\<rparr> [] example_running))) \<noteq> [] @ [LF]
   \<and> fst (SendCommand \<lparr>WriteFile_result = Some 0\<rparr> [] example_running) = Resolve True"
  by (simp add: SendCommand_def example_running_def Let_def bytes_offered_def call_def new_calls_def)

subsection \<open>C2: a pipe that cannot be created\<close>

text \<open>
  C2 does not hold of the code. On a fresh module, with the engine found and copied, the
  stdin pipe created as \<open>(11, 12)\<close> and the stdout pipe refused, \<open>SpawnEngine\<close> rejects and
  closes both ends of the stdin pipe, but \<open>m_stdinWrite\<close> keeps the value of the closed
  handle; a \<open>StopEngine\<close> after it closes that handle a second time. (The path through a
  failed \<open>CreateProcessW\<close> ends in \<open>CleanupProcess\<close>, which sets the members to null.)
\<close>

theorem SpawnEngine_stdout_pipe_failure_keeps_closed_handle:
  "fst (SpawnEngine example_stdout_pipe_fails (L ''sf.exe'') (initial False))
      = Reject ''Failed to spawn engine process. Error code: 8''
   \<and> m_stdinWrite (snd (SpawnEngine example_stdout_pipe_fails (L ''sf.exe'') (initial False))) = 12
   \<and> CloseHandle 12 \<in> set (os_calls (snd (SpawnEngine example_stdout_pipe_fails (L ''sf.exe'') (initial False))))
   \<and> new_calls (snd (SpawnEngine example_stdout_pipe_fails (L ''sf.exe'') (initial False)))
        (snd (StopEngine (snd (SpawnEngine example_stdout_pipe_fails (L ''sf.exe'') (initial False)))))
      = [CloseHandle 12]"
  unfolding example_pipe_failure
  by (simp add: StopEngine_def new_calls_CleanupProcess stop_calls_def initial_def joinable_def)

subsection \<open>C3: when a command is rejected\<close>

text \<open>
  C3, as amended. On a running session \<open>SendCommand\<close> rejects, with
  \<open>Failed to write to engine stdin\<close>, exactly when \<open>WriteFile\<close> returns an error; whenever
  \<open>WriteFile\<close> returns success the promise is resolved, whatever byte count it reported.
\<close>

theorem SendCommand_rejects_only_write_error:
  assumes "m_isRunning s" and "m_stdinWrite s \<noteq> nullptr"
  shows "fst (SendCommand os c s)
           = (case WriteFile_result os of
                None \<Rightarrow> Reject ''Failed to write to engine stdin''
              | Some bytesWritten \<Rightarrow> Resolve True)"
  using assms
  by (cases "WriteFile_result os") (simp_all add: SendCommand_running Let_def)

text \<open>
  The command \<open>go\<close> on the running session, once with a failing write and once with a short one.
\<close>

theorem SendCommand_rejects_only_write_error_witness:
  "m_isRunning example_running \<and> m_stdinWrite example_running \<noteq> nullptr
   \<and> fst (SendCommand \<lparr>WriteFile_result = None\<rparr> ''go'' example_running) = Reject ''Failed to write to engine stdin''
   \<and> fst (SendCommand \<lparr>WriteFile_result = Some 1\<rparr> ''go'' example_running) = Resolve True"
proof -
  have h: "m_isRunning example_running" "m_stdinWrite example_running \<noteq> nullptr"
    by (simp_all add: example_running_def)
  show ?thesis
    using SendCommand_rejects_only_write_error [OF h, of "\<lparr>WriteFile_result = None\<rparr>" "''go''"]
      SendCommand_rejects_only_write_error [OF h, of "\<lparr>WriteFile_result = Some 1\<rparr>" "''go''"] h
    by simp
qed

text \<open>
  C3 as stated fails for a short write: \<open>bytesWritten\<close> is never read, so a write that
  reports one byte of the three of \<open>go\<close> and its line feed is reported as a success.
\<close>

theorem SendCommand_short_write_counterexample:
  "fst (SendCommand \<lparr>WriteFile_result = Some 1\<rparr> ''go'' example_running) = Resolve True
   \<and> unat (1 :: DWORD) < length (''go'' @ [LF])"
  by (simp add: SendCommand_def example_running_def Let_def)

subsection \<open>C4: reading the queue\<close>

text \<open>
  C4. A single \<open>ReadOutput\<close> resolves with the concatenation of the queued chunks in
  queue order and leaves the queue empty; with nothing queued it resolves with the empty
  text; it never rejects, whatever the rest of the state is.
\<close>

theorem ReadOutput_drains_in_order:
  "ReadOutput s = (Resolve (concat (m_outputQueue s)), s\<lparr>m_outputQueue := []\<rparr>)"
  by (simp add: ReadOutput_def drain_eq)

subsection \<open>C5: a launch over a running session\<close>

text \<open>
  C5. When \<open>SpawnEngine\<close> is called with the flag set, every \<open>CreateProcessW\<close> it issues
  comes after the whole stop sequence of the old session: the join of the drainer (when
  there is a thread to join), \<open>TerminateProcess\<close> and \<open>CloseHandle\<close> on the old process
  handle (when it is not null), and \<open>CloseHandle\<close> on each old pipe handle that is not
  null. In a running session reached from a fresh module none of the conditions is
  empty (\<open>running_session_held\<close>).
\<close>

theorem SpawnEngine_stops_old_session_first:
  assumes "m_isRunning s"
    and "new_calls s (snd (SpawnEngine os enginePath s)) = before @ CreateProcessW p i out e # after"
  shows "(\<exists>pre post. before = pre @ new_calls s (CleanupProcess s) @ post)
       \<and> (joinable (m_outputThread s) \<longrightarrow> thread_join \<in> set before)
       \<and> (m_processHandle s \<noteq> nullptr \<longrightarrow>
            TerminateProcess (m_processHandle s) \<in> set before \<and> CloseHandle (m_processHandle s) \<in> set before)
       \<and> (m_stdinWrite s \<noteq> nullptr \<longrightarrow> CloseHandle (m_stdinWrite s) \<in> set before)
       \<and> (m_stdoutRead s \<noteq> nullptr \<longrightarrow> CloseHandle (m_stdoutRead s) \<in> set before)
       \<and> (m_stderrRead s \<noteq> nullptr \<longrightarrow> CloseHandle (m_stderrRead s) \<in> set before)"
proof -
  let ?new = "new_calls s (snd (SpawnEngine os enginePath s))"
  let ?c = "CreateProcessW p i out e"
  have "?c \<in> set ?new" unfolding assms(2) by simp
  moreover have "creates ?c" by simp
  ultimately have "\<not> (\<forall>c\<in>set ?new. \<not> creates c)" by blast
  with SpawnEngine_calls [OF assms(1), of os enginePath]
  obtain pre post where new: "?new = pre @ stop_calls s @ post" and pre: "\<forall>c\<in>set pre. \<not> creates c"
    by blast
  have "?c \<notin> set pre" using pre \<open>creates ?c\<close> by blast
  moreover have "?c \<notin> set (stop_calls s)" using stop_calls_no_create [of ?c s] \<open>creates ?c\<close> by blast
  ultimately have "?c \<notin> set (pre @ stop_calls s)" by simp
  moreover have "(pre @ stop_calls s) @ post = before @ ?c # after"
    using new assms(2) by simp
  ultimately obtain r where r: "before = (pre @ stop_calls s) @ r"
    using split_after_prefix [of "pre @ stop_calls s" post before ?c after] by blast
  have sub: "\<And>c. c \<in> set (stop_calls s) \<Longrightarrow> c \<in> set before" unfolding r by simp
  have "before = pre @ new_calls s (CleanupProcess s) @ r"
    unfolding r new_calls_CleanupProcess by simp
  then have "\<exists>pre post. before = pre @ new_calls s (CleanupProcess s) @ post" by (intro exI)
  then show ?thesis
    by (intro conjI impI sub in_stop_calls) 
qed

text \<open>
  A launch over the running session on the platform where everything succeeds: its
  twentieth call is the \<open>CreateProcessW\<close>, and the join, the termination of the old process
  \<open>7\<close> and the close of the old stdin handle \<open>2\<close> are among the nineteen before it.
\<close>

theorem SpawnEngine_stops_old_session_first_witness:
  "m_isRunning example_running
   \<and> thread_join \<in> set (take 19 (new_calls example_running (snd (SpawnEngine example_os (L ''x/sf.exe'') example_running))))
   \<and> TerminateProcess 7 \<in> set (take 19 (new_calls example_running (snd (SpawnEngine example_os (L ''x/sf.exe'') example_running))))
   \<and> CloseHandle 2 \<in> set (take 19 (new_calls example_running (snd (SpawnEngine example_os (L ''x/sf.exe'') example_running))))"
proof -
  have run: "m_isRunning example_running" by (simp add: example_running_def)
  have fields: "joinable (m_outputThread example_running)" "m_processHandle example_running = 7"
    "m_stdinWrite example_running = 2"
    by (simp_all add: example_running_def joinable_def)
  show ?thesis
    using SpawnEngine_stops_old_session_first [OF run example_restart_calls] run fields
    by (simp add: example_restart_calls)
qed

subsection \<open>C6: stopping twice\<close>

text \<open>
  C6 does not hold of the code. After a launch that failed at the second pipe there is no
  session: the flag is false, there is no thread and no process. \<open>StopEngine\<close> on that
  state resolves with \<open>true\<close> but is not a no-op: \<open>m_stdinWrite\<close> still holds the handle
  \<open>12\<close> that the failed launch closed, so \<open>StopEngine\<close> calls \<open>CloseHandle\<close> on it again
  and only then sets the member to null. (The same missing reset as in C2. What does hold
  of every state is \<open>StopEngine_releases\<close>.)
\<close>

theorem StopEngine_after_failed_launch_closes_again:
  "\<not> m_isRunning example_failed_launch
   \<and> m_outputThread example_failed_launch = not_a_thread
   \<and> m_processHandle example_failed_launch = nullptr
   \<and> m_stdinWrite example_failed_launch = 12
   \<and> CloseHandle 12 \<in> set (os_calls example_failed_launch)
   \<and> fst (StopEngine example_failed_launch) = Resolve True
   \<and> new_calls example_failed_launch (snd (StopEngine example_failed_launch)) = [CloseHandle 12]
   \<and> m_stdinWrite (snd (StopEngine example_failed_launch)) = nullptr
   \<and> snd (StopEngine example_failed_launch) \<noteq> example_failed_launch"
proof -
  have s: "example_failed_launch
    = (initial False)\<lparr>m_stdinWrite := 12,
         os_calls := [OutputDebugStringW (L ''Looking for engine at: '' @ example_source),
           GetFileAttributesW example_source, GetTempPathW,
           CreateDirectoryW (L ''T:'' @ [backslash] @ L ''ChessAppEngine'' @ [backslash]),
           CopyFileW example_source example_copy,
           OutputDebugStringW (L ''Copied engine to: '' @ example_copy),
           CreatePipe (Some (11, 12)), SetHandleInformation 12, CreatePipe None,
           CloseHandle 11, CloseHandle 12]\<rparr>"
    by (simp add: example_failed_launch_def example_pipe_failure)
  have "m_stdinWrite (snd (StopEngine example_failed_launch)) \<noteq> m_stdinWrite example_failed_launch"
    unfolding s by (simp add: StopEngine_def initial_def)
  then have "snd (StopEngine example_failed_launch) \<noteq> example_failed_launch"
    by auto
  then show ?thesis
    unfolding s
    by (simp add: StopEngine_def new_calls_CleanupProcess stop_calls_def initial_def joinable_def)
qed

subsection \<open>C7: who clears the flag\<close>

text \<open>
  C7. If an operation finds the flag set and leaves it cleared, the operation is
  \<open>StopEngine\<close>, or a \<open>SpawnEngine\<close> whose log holds the whole stop sequence of the old
  session, or an iteration of the drainer in which \<open>GetExitCodeProcess\<close> succeeded with an
  exit code other than \<open>STILL_ACTIVE\<close>, after which the drainer has left its loop. And an
  iteration of a looping drainer that sees such an exit code does clear the flag and leave
  the loop.
\<close>

theorem running_cleared_only_by_stop_or_exit:
  "(m_isRunning s \<and> \<not> m_isRunning (exec op s) \<longrightarrow>
      op = Call_StopEngine
      \<or> (\<exists>os enginePath. op = Call_SpawnEngine os enginePath
            \<and> (\<exists>pre post. new_calls s (exec op s) = pre @ new_calls s (CleanupProcess s) @ post))
      \<or> (\<exists>os exitCode. op = Drainer_iteration os \<and> m_outputThread s = thread_looping
            \<and> GetExitCodeProcess_result os = (True, exitCode) \<and> exitCode \<noteq> STILL_ACTIVE
            \<and> m_outputThread (exec op s) = thread_returned))
   \<and> (m_isRunning s \<and> m_outputThread s = thread_looping
        \<and> GetExitCodeProcess_result d = (True, exitCode') \<and> exitCode' \<noteq> STILL_ACTIVE \<longrightarrow>
        \<not> m_isRunning (exec (Drainer_iteration d) s)
        \<and> m_outputThread (exec (Drainer_iteration d) s) = thread_returned)"
proof (intro conjI impI)
  assume a: "m_isRunning s \<and> \<not> m_isRunning (exec op s)"
  show "op = Call_StopEngine
      \<or> (\<exists>os enginePath. op = Call_SpawnEngine os enginePath
            \<and> (\<exists>pre post. new_calls s (exec op s) = pre @ new_calls s (CleanupProcess s) @ post))
      \<or> (\<exists>os exitCode. op = Drainer_iteration os \<and> m_outputThread s = thread_looping
            \<and> GetExitCodeProcess_result os = (True, exitCode) \<and> exitCode \<noteq> STILL_ACTIVE
            \<and> m_outputThread (exec op s) = thread_returned)"
  proof (cases op)
    case (Call_SpawnEngine os enginePath)
    have "\<not> m_isRunning (snd (SpawnEngine os enginePath s))"
      using a Call_SpawnEngine by simp
    then have "\<exists>pre post. new_calls s (snd (SpawnEngine os enginePath s)) = pre @ stop_calls s @ post"
      using a SpawnEngine_calls [of s os enginePath] by blast
    then show ?thesis
      using Call_SpawnEngine by (simp add: new_calls_CleanupProcess)
  next
    case (Call_SendCommand os command)
    then show ?thesis
      using a by (simp add: SendCommand_flag)
  next
    case Call_ReadOutput
    then show ?thesis using a by (simp add: ReadOutput_flag)
  next
    case Call_StopEngine
    then show ?thesis by simp
  next
    case Call_IsEngineRunning
    then show ?thesis using a by (simp add: IsEngineRunning_def)
  next
    case (Drainer_iteration os)
    have looping: "m_outputThread s = thread_looping"
      using a Drainer_iteration by (simp split: if_splits)
    then have "\<not> m_isRunning (OutputReaderThread_iteration os s)"
      using a Drainer_iteration by simp
    then have exit: "fst (GetExitCodeProcess_result os)" "snd (GetExitCodeProcess_result os) \<noteq> STILL_ACTIVE"
      using a by (simp_all add: iteration_flag)
    then have "GetExitCodeProcess_result os = (True, snd (GetExitCodeProcess_result os))"
      by (cases "GetExitCodeProcess_result os") simp
    moreover have "m_outputThread (exec op s) = thread_returned"
      using a looping exit Drainer_iteration by (simp add: iteration_thread)
    ultimately show ?thesis
      using Drainer_iteration looping exit by blast
  qed
next
  assume "m_isRunning s \<and> m_outputThread s = thread_looping
        \<and> GetExitCodeProcess_result d = (True, exitCode') \<and> exitCode' \<noteq> STILL_ACTIVE"
  then show "\<not> m_isRunning (exec (Drainer_iteration d) s)"
    and "m_outputThread (exec (Drainer_iteration d) s) = thread_returned"
    by (simp_all add: iteration_flag iteration_thread)
qed

text \<open>
  On the running session, an iteration that finds the exit code \<open>0\<close> clears the flag and
  leaves the loop, \<open>StopEngine\<close> clears it, and an iteration that finds \<open>STILL_ACTIVE\<close> does
  not.
\<close>

theorem running_cleared_only_by_stop_or_exit_witness:
  "m_isRunning example_running
   \<and> \<not> m_isRunning (exec (Drainer_iteration example_exit) example_running)
   \<and> m_outputThread (exec (Drainer_iteration example_exit) example_running) = thread_returned
   \<and> \<not> m_isRunning (exec Call_StopEngine example_running)
   \<and> m_isRunning (exec (Drainer_iteration example_read) example_running)"
proof -
  have h: "m_isRunning example_running" "m_outputThread example_running = thread_looping"
    "GetExitCodeProcess_result example_exit = (True, 0)" "(0 :: DWORD) \<noteq> STILL_ACTIVE"
    by (simp_all add: example_running_def example_exit_def STILL_ACTIVE_def)
  have "\<not> m_isRunning (exec Call_StopEngine example_running)"
    by (simp add: StopEngine_def)
  moreover have "m_isRunning (exec (Drainer_iteration example_read) example_running)"
    using h by (simp add: iteration_flag example_read_def STILL_ACTIVE_def)
  ultimately show ?thesis
    using running_cleared_only_by_stop_or_exit [of example_running "Drainer_iteration example_exit" example_exit 0] h
    by simp
qed

subsection \<open>C8: a command without a session\<close>

text \<open>
  C8. When the flag is false or the stdin handle is null, \<open>SendCommand\<close> rejects with
  \<open>Engine is not running\<close> and leaves the module as it was: no field changes and no call
  is made.
\<close>

theorem SendCommand_not_running:
  assumes "\<not> m_isRunning s \<or> m_stdinWrite s = nullptr"
  shows "SendCommand os c s = (Reject ''Engine is not running'', s)"
  using assms by (simp add: SendCommand_def)

text \<open>
  A command sent to a fresh module.
\<close>

theorem SendCommand_not_running_witness:
  "\<not> m_isRunning (initial False)
   \<and> SendCommand \<lparr>WriteFile_result = Some 3\<rparr> ''go'' (initial False) = (Reject ''Engine is not running'', initial False)"
proof -
  have h: "\<not> m_isRunning (initial False)" by (simp add: initial_def)
  then have "\<not> m_isRunning (initial False) \<or> m_stdinWrite (initial False) = nullptr" by simp
  from SendCommand_not_running [OF this] h show ?thesis by simp
qed

subsection \<open>C9: a NUL byte in the engine's output\<close>

text \<open>
  C9. An iteration of the drainer appends a chunk to the queue exactly when the flag is
  set, the peek succeeds with a positive count and the read succeeds with at least one
  byte; the chunk is the bytes read up to their first NUL, and the same chunk is the one
  thing it posts to the listener, when there is a listener. The bytes of the read from
  the first NUL on reach neither the queue nor the listener.
\<close>

theorem drainer_chunk_stops_at_NUL:
  "m_outputQueue (OutputReaderThread_iteration os s)
     = m_outputQueue s
       @ (if m_isRunning s \<and> fst (PeekNamedPipe_result os) \<and> 0 < snd (PeekNamedPipe_result os)
             \<and> fst (ReadFile_result os) \<and> snd (ReadFile_result os) \<noteq> []
          then [takeWhile (\<lambda>c. c \<noteq> NUL) (take 4095 (snd (ReadFile_result os)))] else [])
   \<and> concat (map posted (new_calls s (OutputReaderThread_iteration os s)))
     = (if m_isRunning s \<and> fst (PeekNamedPipe_result os) \<and> 0 < snd (PeekNamedPipe_result os)
           \<and> fst (ReadFile_result os) \<and> snd (ReadFile_result os) \<noteq> [] \<and> OnEngineOutput s
        then [takeWhile (\<lambda>c. c \<noteq> NUL) (take 4095 (snd (ReadFile_result os)))] else [])"
proof -
  let ?data = "take 4095 (snd (ReadFile_result os))"
  have "length ?data \<le> 4095" by simp
  note str = std_string_after_read [OF this, of "stack_buffer os"]
  have ne: "?data = [] \<longleftrightarrow> snd (ReadFile_result os) = []" by simp
  have q: "m_outputQueue (OutputReaderThread_iteration os s)
     = m_outputQueue s
       @ (if m_isRunning s \<and> fst (PeekNamedPipe_result os) \<and> 0 < snd (PeekNamedPipe_result os)
             \<and> fst (ReadFile_result os) \<and> snd (ReadFile_result os) \<noteq> []
          then [takeWhile (\<lambda>c. c \<noteq> NUL) ?data] else [])"
    using str ne by (simp add: OutputReaderThread_iteration_def Let_def case_prod_beta)
  have "\<exists>cs. os_calls (OutputReaderThread_iteration os s) = os_calls s @ cs
      \<and> concat (map posted cs) = (if m_isRunning s \<and> fst (PeekNamedPipe_result os) \<and> 0 < snd (PeekNamedPipe_result os)
           \<and> fst (ReadFile_result os) \<and> snd (ReadFile_result os) \<noteq> [] \<and> OnEngineOutput s
        then [takeWhile (\<lambda>c. c \<noteq> NUL) ?data] else [])"
    using str ne by (simp add: OutputReaderThread_iteration_def Let_def case_prod_beta)
  then obtain cs where "os_calls (OutputReaderThread_iteration os s) = os_calls s @ cs"
    and p: "concat (map posted cs) = (if m_isRunning s \<and> fst (PeekNamedPipe_result os) \<and> 0 < snd (PeekNamedPipe_result os)
           \<and> fst (ReadFile_result os) \<and> snd (ReadFile_result os) \<noteq> [] \<and> OnEngineOutput s
        then [takeWhile (\<lambda>c. c \<noteq> NUL) ?data] else [])"
    by blast
  then have "new_calls s (OutputReaderThread_iteration os s) = cs"
    by (simp add: new_calls_append)
  then show ?thesis using q p by simp
qed

text \<open>
  With the engine alive, a listener registered and \<open>ok\<close> already queued, a read that
  delivers \<open>a b NUL c d\<close> queues and posts \<open>ab\<close>.
\<close>

theorem drainer_chunk_stops_at_NUL_witness:
  "m_outputQueue (OutputReaderThread_iteration example_read example_running) = [''ok'', ''ab'']
   \<and> concat (map posted (new_calls example_running (OutputReaderThread_iteration example_read example_running)))
       = [''ab'']"
proof -
  have "m_isRunning example_running" "OnEngineOutput example_running"
    "m_outputQueue example_running = [''ok'']"
    by (simp_all add: example_running_def)
  moreover have "PeekNamedPipe_result example_read = (True, 5)"
    "ReadFile_result example_read = (True, [CHR ''a'', CHR ''b'', NUL, CHR ''c'', CHR ''d''])"
    by (simp_all add: example_read_def)
  ultimately show ?thesis
    using drainer_chunk_stops_at_NUL [of example_read example_running] by simp
qed

subsection \<open>C10: the directory of the engine path\<close>

text \<open>
  C10. Let \<open>name\<close> hold neither a backslash nor a slash, and let each of two engine paths
  be \<open>name\<close> itself or some text, a backslash or a slash, and then \<open>name\<close>: so \<open>name\<close> is
  the final component of both. Then \<open>SpawnEngine\<close> is the same on both (the same
  settlement, the same fields, the same calls), and the first thing it does is look
  \<open>name\<close> up in the \<open>engines\<close> directory under \<open>Assets\<close> of the package, whatever
  came before \<open>name\<close> in the path.
\<close>

theorem SpawnEngine_depends_on_final_component_only:
  assumes "backslash \<notin> set name" and "slash \<notin> set name"
    and "enginePath = name
         \<or> (\<exists>dir sep. (sep = backslash \<or> sep = slash) \<and> enginePath = dir @ sep # name)"
    and "enginePath' = name
         \<or> (\<exists>dir sep. (sep = backslash \<or> sep = slash) \<and> enginePath' = dir @ sep # name)"
  shows "SpawnEngine os enginePath s = SpawnEngine os enginePath' s
       \<and> (\<exists>rest. new_calls s (snd (SpawnEngine os enginePath s))
            = OutputDebugStringW (c_str (L ''Looking for engine at: '' @ c_str (InstalledLocation_Path os)
                @ [backslash] @ L ''Assets'' @ [backslash] @ L ''engines'' @ [backslash] @ name))
              # GetFileAttributesW (c_str (c_str (InstalledLocation_Path os)
                @ [backslash] @ L ''Assets'' @ [backslash] @ L ''engines'' @ [backslash] @ name))
              # rest)"
proof -
  have 1: "filename enginePath = name"
    using assms(1,2,3) filename_final_component filename_no_separator by blast
  have 2: "filename enginePath' = name"
    using assms(1,2,4) filename_final_component filename_no_separator by blast
  have "SpawnEngine os enginePath s = SpawnEngine os enginePath' s"
    by (simp add: SpawnEngine_def 1 2)
  then show ?thesis
    using SpawnEngine_lookup_first [of s os enginePath] unfolding 1 by blast
qed

text \<open>
  Two paths to \<open>sf.exe\<close> through different directories, on the running session: the
  launches are the same, and the second call of each asks for the attributes of
  \<open>sf.exe\<close> in the package's engine directory.
\<close>

theorem SpawnEngine_depends_on_final_component_only_witness:
  "backslash \<notin> set (L ''sf.exe'') \<and> slash \<notin> set (L ''sf.exe'')
   \<and> L ''x/sf.exe'' = L ''x'' @ slash # L ''sf.exe''
   \<and> L ''C:'' @ [backslash] @ L ''games/y'' @ [backslash] @ L ''sf.exe''
        = (L ''C:'' @ [backslash] @ L ''games/y'') @ backslash # L ''sf.exe''
   \<and> SpawnEngine example_os (L ''x/sf.exe'') example_running
       = SpawnEngine example_os (L ''C:'' @ [backslash] @ L ''games/y'' @ [backslash] @ L ''sf.exe'') example_running
   \<and> new_calls example_running (snd (SpawnEngine example_os (L ''x/sf.exe'') example_running)) ! 1
       = GetFileAttributesW example_source"
proof -
  have n: "backslash \<notin> set (L ''sf.exe'')" "slash \<notin> set (L ''sf.exe'')"
    by (simp_all add: L_def)
  have a: "L ''x/sf.exe'' = L ''x'' @ slash # L ''sf.exe''"
    by (simp add: L_def)
  have b: "L ''C:'' @ [backslash] @ L ''games/y'' @ [backslash] @ L ''sf.exe''
        = (L ''C:'' @ [backslash] @ L ''games/y'') @ backslash # L ''sf.exe''"
    by simp
  have p: "L ''x/sf.exe'' = L ''sf.exe''
      \<or> (\<exists>dir sep. (sep = backslash \<or> sep = slash) \<and> L ''x/sf.exe'' = dir @ sep # L ''sf.exe'')"
    using a by blast
  have p': "L ''C:'' @ [backslash] @ L ''games/y'' @ [backslash] @ L ''sf.exe'' = L ''sf.exe''
      \<or> (\<exists>dir sep. (sep = backslash \<or> sep = slash)
            \<and> L ''C:'' @ [backslash] @ L ''games/y'' @ [backslash] @ L ''sf.exe'' = dir @ sep # L ''sf.exe'')"
    using b by blast
  have "new_calls example_running (snd (SpawnEngine example_os (L ''x/sf.exe'') example_running)) ! 1
       = GetFileAttributesW example_source"
    using SpawnEngine_depends_on_final_component_only [OF n p p', of example_os example_running]
    by (auto simp: example_os_def example_source_def c_str_def L_def)
  then show ?thesis
    using SpawnEngine_depends_on_final_component_only [OF n p p', of example_os example_running] n a b
    by blast
qed

end
